theory Spec2Isabelle
  imports Complex_Main
begin

section \<open>JavaScript values and strings\<close>

text \<open>
  The script \<^verbatim>\<open>webapp/main.js\<close> is embedded function by function. Strings are
  \<^typ>\<open>string\<close>: a list of code units below 256, read as Latin-1 (every string the script
  compares against is ASCII). Counters (\<^verbatim>\<open>attempt\<close>, \<^verbatim>\<open>maxRetries\<close>, \<^verbatim>\<open>retryDelay\<close>) are
  naturals, which is what JavaScript numbers are on the integers they represent exactly.
  Diagnostic output (\<^verbatim>\<open>console.log/warn/error\<close>) is left out: nothing branches on it.
\<close>

text \<open>What \<^verbatim>\<open>JSON.parse\<close> can produce. An object is its list of own properties.\<close>

datatype json =
    JNull
  | JBool bool
  | JNum rat
  | JStr string
  | JArr "json list"
  | JObj "(string \<times> json) list"

text \<open>
  A value the script handles: data, or an object of the runtime that no JSON text denotes
  (a member of \<^verbatim>\<open>Object.prototype\<close>, named by its property key).
\<close>

datatype jsval = Data json | Builtin string

text \<open>An \<^verbatim>\<open>Error\<close> object; the script reads only its \<^verbatim>\<open>message\<close>.\<close>

datatype js_error = Error (message: string)

text \<open>JavaScript truthiness: \<^verbatim>\<open>!v\<close> holds for null, false, 0 and the empty string.\<close>

fun truthy :: "json \<Rightarrow> bool" where
  "truthy JNull = False"
| "truthy (JBool b) = b"
| "truthy (JNum n) = (n \<noteq> 0)"
| "truthy (JStr s) = (s \<noteq> [])"
| "truthy (JArr xs) = True"
| "truthy (JObj ps) = True"

text \<open>\<^verbatim>\<open>undefined\<close> is \<open>None\<close>; it is falsy.\<close>

definition truthy_opt :: "json option \<Rightarrow> bool" where
  "truthy_opt v = (case v of None \<Rightarrow> False | Some x \<Rightarrow> truthy x)"

text \<open>
  Property read \<^verbatim>\<open>v.key\<close> on a non-null value, for a key that is no built-in property of
  arrays, strings, numbers or booleans (\<^verbatim>\<open>name\<close>, \<^verbatim>\<open>defaultLocale\<close>): only an object
  can have it.
\<close>

fun get_prop :: "json \<Rightarrow> string \<Rightarrow> json option" where
  "get_prop (JObj ps) key = map_of ps key"
| "get_prop v key = None"

text \<open>\<^verbatim>\<open>String.prototype.startsWith\<close> and \<^verbatim>\<open>includes\<close>.\<close>

definition startsWith :: "string \<Rightarrow> string \<Rightarrow> bool" where
  "startsWith s p = (take (length p) s = p)"

fun includes_str :: "string \<Rightarrow> string \<Rightarrow> bool" where
  "includes_str [] sub = (sub = [])"
| "includes_str (c # cs) sub = (startsWith (c # cs) sub \<or> includes_str cs sub)"

text \<open>\<^verbatim>\<open>String.prototype.trim\<close>: white space and line terminators, at both ends.\<close>

definition is_space :: "char \<Rightarrow> bool" where
  "is_space c = (c \<in> set [CHR 0x09, CHR 0x0A, CHR 0x0B, CHR 0x0C, CHR 0x0D, CHR 0x20, CHR 0xA0])"

definition trim :: "string \<Rightarrow> string" where
  "trim s = rev (dropWhile is_space (rev (dropWhile is_space s)))"

text \<open>\<^verbatim>\<open>String.prototype.toLowerCase\<close> on Latin-1 code units.\<close>

definition lower_char :: "char \<Rightarrow> char" where
  "lower_char c =
     (let n = (of_char c :: nat)
      in if (65 \<le> n \<and> n \<le> 90) \<or> (192 \<le> n \<and> n \<le> 214) \<or> (216 \<le> n \<and> n \<le> 222)
         then char_of (n + 32) else c)"

definition toLowerCase :: "string \<Rightarrow> string" where
  "toLowerCase s = map lower_char s"

section \<open>getBrowserLanguage\<close>

text \<open>\<^verbatim>\<open>navigator.language\<close> and the legacy \<^verbatim>\<open>navigator.userLanguage\<close>; \<open>None\<close> is undefined.\<close>

record navigator =
  language :: "string option"
  userLanguage :: "string option"

text \<open>The object literal \<^verbatim>\<open>mMap\<close>, its own properties in source order.\<close>

definition mMap :: "(string \<times> string) list" where
  "mMap =
     [(''es'', ''es_ES''),
      (''es-es'', ''es_ES''),
      (''ca'', ''ca_ES''),
      (''ca-es'', ''ca_ES''),
      (''en'', ''en_US''),
      (''en-us'', ''en_US''),
      (''ca_es'', ''ca_ES''),
      (''en_us'', ''en_US''),
      (''es_es'', ''es_ES'')]"

text \<open>
  \<^verbatim>\<open>mMap\<close> is a plain object, so a read \<^verbatim>\<open>mMap[key]\<close> that finds no own property goes on
  to \<^verbatim>\<open>Object.prototype\<close>, whose property keys are these.
\<close>

definition Object_prototype :: "string list" where
  "Object_prototype =
     [''constructor'', ''hasOwnProperty'', ''isPrototypeOf'', ''propertyIsEnumerable'',
      ''toLocaleString'', ''toString'', ''valueOf'', ''__defineGetter__'',
      ''__defineSetter__'', ''__lookupGetter__'', ''__lookupSetter__'', ''__proto__'']"

definition mMap_read :: "string \<Rightarrow> jsval option" where
  "mMap_read key =
     (case map_of mMap key of
        Some v \<Rightarrow> Some (Data (JStr v))
      | None \<Rightarrow> if key \<in> set Object_prototype then Some (Builtin key) else None)"

text \<open>\<^verbatim>\<open>navigator.language || navigator.userLanguage || "en"\<close>: an empty string is falsy.\<close>

definition browser_tag :: "navigator \<Rightarrow> string" where
  "browser_tag nav =
     (case language nav of
        Some (c # cs) \<Rightarrow> c # cs
      | _ \<Rightarrow> (case userLanguage nav of
                Some (c # cs) \<Rightarrow> c # cs
              | _ \<Rightarrow> ''en''))"

text \<open>
  \<^verbatim>\<open>return mMap[sLang] || "en_US"\<close>. Every own value of \<^verbatim>\<open>mMap\<close> is a non-empty string
  and a built-in is an object, so whatever the read finds is truthy.
\<close>

definition getBrowserLanguage :: "navigator \<Rightarrow> jsval" where
  "getBrowserLanguage nav =
     (let sLang = toLowerCase (browser_tag nav)
      in case mMap_read sLang of
           Some v \<Rightarrow> v
         | None \<Rightarrow> Data (JStr ''en_US''))"

section \<open>Effects and promises\<close>

text \<open>
  What the script does to the outside world, in the order it does it. An event is a call
  that was made; whether the call came back is in the result of the function that made it.
\<close>

datatype event =
    FetchCurrentUser
    \<comment> \<open>\<^verbatim>\<open>fetch(<base>/user-api/currentUser, {method: "GET", credentials: "include", ...})\<close>\<close>
  | SetTimeout nat
    \<comment> \<open>\<^verbatim>\<open>await new Promise(resolve => setTimeout(resolve, ms))\<close>\<close>
  | XhrSend string string
    \<comment> \<open>\<^verbatim>\<open>xhr.open(method, url, true); xhr.send()\<close>\<close>
  | LocationReload bool
    \<comment> \<open>\<^verbatim>\<open>window.location.reload(forceGet)\<close>\<close>
  | SessionSetItem string string
    \<comment> \<open>\<^verbatim>\<open>sessionStorage.setItem(key, value)\<close>\<close>
  | ODataRead string json
    \<comment> \<open>\<^verbatim>\<open>oDataModel.read(path, ...)\<close> with the filter \<^verbatim>\<open>userId EQ value\<close>\<close>
  | SetLanguage jsval
    \<comment> \<open>\<^verbatim>\<open>sap.ui.getCore().getConfiguration().setLanguage(value)\<close>\<close>
  | PlaceAt string string
    \<comment> \<open>\<^verbatim>\<open>new ComponentContainer({name: ..., async: true}).placeAt(id)\<close>\<close>

text \<open>
  How an \<^verbatim>\<open>async\<close> call ends: its promise is fulfilled, is rejected, or stays pending for
  ever (\<^verbatim>\<open>await new Promise(() => {})\<close>).
\<close>

datatype 'a promise = Resolved 'a | Rejected js_error | Pending

type_synonym 'a run = "event list \<times> 'a promise"

definition after :: "event list \<Rightarrow> 'a run \<Rightarrow> 'a run" where
  "after es r = (es @ fst r, snd r)"

section \<open>forceLogoutAndReload\<close>

text \<open>The call sends the request and returns; the reload is the request's callback.\<close>

definition forceLogoutAndReload :: "event list" where
  "forceLogoutAndReload = [XhrSend ''GET'' ''/logout'']"

definition onreadystatechange :: "nat \<Rightarrow> event list" where
  "onreadystatechange readyState = (if readyState = 4 then [LocationReload True] else [])"

section \<open>The world outside the script\<close>

text \<open>
  A \<^verbatim>\<open>Response\<close>. \<^verbatim>\<open>response.text()\<close> gives the body or rejects. The \<^verbatim>\<open>content-type\<close>
  header is read only to print a warning and is left out.
\<close>

record response =
  status :: nat
  statusText :: string
  body :: "js_error + string"

text \<open>\<^verbatim>\<open>Response.ok\<close>, as the Fetch standard defines it: the status is in 200..299.\<close>

definition ok :: "response \<Rightarrow> bool" where
  "ok r = (200 \<le> status r \<and> status r \<le> 299)"

datatype fetch_result = Rejects js_error | Responds response

text \<open>A row of the Directory Service; \<^verbatim>\<open>defaultLocale\<close> may be absent.\<close>

record user_entry =
  defaultLocale :: "json option"

text \<open>
  How the OData model answers a read: it throws before any request (the constructor or
  \<^verbatim>\<open>read\<close> itself), calls \<^verbatim>\<open>success(oData)\<close> with \<^verbatim>\<open>oData.results\<close> (absent is \<open>None\<close>),
  or calls \<^verbatim>\<open>error(oError)\<close>.
\<close>

datatype directory_reply =
    Throws js_error
  | Success "user_entry list option"
  | Failure

text \<open>
  The collaborators the script does not define. \<^verbatim>\<open>JSON.parse\<close> (\<open>None\<close>: it throws a
  SyntaxError) and \<^verbatim>\<open>JSON.stringify\<close> are built-ins of the runtime and stay parameters;
  the Identity Endpoint is asked once per attempt and answers by attempt number.
\<close>

record world =
  identity_endpoint :: "nat \<Rightarrow> fetch_result"
  JSON_parse :: "string \<Rightarrow> json option"
  JSON_stringify :: "json \<Rightarrow> string"
  directory :: "json \<Rightarrow> directory_reply"
  nav :: navigator

text \<open>The UI framework: each call returns normally (\<open>None\<close>) or throws.\<close>

record framework =
  setLanguage :: "jsval \<Rightarrow> js_error option"
  placeAt :: "js_error option"

section \<open>parseJsonResponse\<close>

definition looks_like_html :: "string \<Rightarrow> bool" where
  "looks_like_html sResponseText =
     (startsWith (trim sResponseText) ''<'' \<or> includes_str sResponseText ''<html>'')"

text \<open>\<open>Inl\<close>: \<^verbatim>\<open>await response.text()\<close> threw. \<^verbatim>\<open>null\<close> is \<^const>\<open>JNull\<close>.\<close>

definition parseJsonResponse :: "world \<Rightarrow> response \<Rightarrow> js_error + json" where
  "parseJsonResponse w r =
     (case body r of
        Inl error \<Rightarrow> Inl error
      | Inr sResponseText \<Rightarrow>
          if looks_like_html sResponseText then Inr JNull
          else (case JSON_parse w sResponseText of
                  Some v \<Rightarrow> Inr v
                | None \<Rightarrow> Inr JNull))"

section \<open>fetchCurrentUser\<close>

text \<open>Decimal digits of a number, as a template literal prints it.\<close>

function decimal :: "nat \<Rightarrow> string" where
  "decimal n = (if n < 10 then [char_of (48 + n)] else decimal (n div 10) @ [char_of (48 + n mod 10)])"
  by pat_completeness auto
termination
  by (relation "measure id") auto

declare decimal.simps [simp del]

definition errorMsg :: "response \<Rightarrow> string" where
  "errorMsg r = ''Error del servidor: '' @ decimal (status r) @ '' '' @ statusText r"

text \<open>The message of the error of line 130, with its accented letter and its quotes.\<close>

definition invalid_user_message :: string where
  "invalid_user_message =
     ''Datos de usuario inv'' @ [CHR 0xE1] @ ''lidos: falta el campo '' @
     [CHR 0x27] @ ''name'' @ [CHR 0x27]"

definition session_message :: "string \<Rightarrow> bool" where
  "session_message m = (includes_str m ''JSON'' \<or> includes_str m ''HTML'')"

text \<open>
  \<^verbatim>\<open>fetchCurrentUser\<close> is the \<^verbatim>\<open>try\<close> block, \<^verbatim>\<open>fetchCurrentUser_catch\<close> the \<^verbatim>\<open>catch\<close>
  block with the error it caught. Both retry with \<^verbatim>\<open>return fetchCurrentUser(attempt + 1, ...)\<close>,
  without \<^verbatim>\<open>await\<close>: the caller's promise takes the outcome of the retry, and a rejection of
  the retry does not come back into the caller's \<^verbatim>\<open>catch\<close>.
\<close>

function fetchCurrentUser :: "world \<Rightarrow> nat \<Rightarrow> nat \<Rightarrow> nat \<Rightarrow> json run"
  and fetchCurrentUser_catch :: "world \<Rightarrow> nat \<Rightarrow> nat \<Rightarrow> nat \<Rightarrow> js_error \<Rightarrow> json run" where
  "fetchCurrentUser w attempt maxRetries retryDelay =
     after [FetchCurrentUser]
       (case identity_endpoint w attempt of
          Rejects error \<Rightarrow> fetchCurrentUser_catch w attempt maxRetries retryDelay error
        | Responds oResponse \<Rightarrow>
            if \<not> ok oResponse then
              if status oResponse = 401 \<or> status oResponse = 403
              then (forceLogoutAndReload, Pending)
              else if attempt < maxRetries
              then after [SetTimeout retryDelay]
                     (fetchCurrentUser w (attempt + 1) maxRetries retryDelay)
              else fetchCurrentUser_catch w attempt maxRetries retryDelay
                     (Error (errorMsg oResponse))
            else
              (case parseJsonResponse w oResponse of
                 Inl error \<Rightarrow> fetchCurrentUser_catch w attempt maxRetries retryDelay error
               | Inr oUserData \<Rightarrow>
                   if \<not> truthy oUserData
                   then (forceLogoutAndReload, Pending)
                   else if \<not> truthy_opt (get_prop oUserData ''name'')
                   then fetchCurrentUser_catch w attempt maxRetries retryDelay
                          (Error invalid_user_message)
                   else ([], Resolved oUserData)))"
| "fetchCurrentUser_catch w attempt maxRetries retryDelay error =
     (if attempt = 1 \<and> session_message (message error)
      then (forceLogoutAndReload, Pending)
      else if attempt < maxRetries
      then after [SetTimeout retryDelay]
             (fetchCurrentUser w (attempt + 1) maxRetries retryDelay)
      else ([], Rejected error))"
  by pat_completeness auto
termination
  by (relation "measure (\<lambda>x. case x of
         Inl (w, attempt, maxRetries, retryDelay) \<Rightarrow> 2 * (maxRetries - attempt) + 1
       | Inr (w, attempt, maxRetries, retryDelay, error) \<Rightarrow> 2 * (maxRetries - attempt))")
     auto

declare fetchCurrentUser.simps [simp del] fetchCurrentUser_catch.simps [simp del]

section \<open>fetchUserLanguageFromSFSF\<close>

text \<open>
  The promise is fulfilled by \<^verbatim>\<open>resolve\<close> in every callback, and the \<^verbatim>\<open>catch\<close> returns
  \<^verbatim>\<open>null\<close>. The model takes it that the OData model calls back once.
\<close>

definition fetchUserLanguageFromSFSF :: "world \<Rightarrow> json \<Rightarrow> json run" where
  "fetchUserLanguageFromSFSF w userId =
     (case directory w userId of
        Throws error \<Rightarrow> ([], Resolved JNull)
      | Failure \<Rightarrow> ([ODataRead ''/User'' userId], Resolved JNull)
      | Success results \<Rightarrow>
          ([ODataRead ''/User'' userId],
           (case results of
              Some (first # others) \<Rightarrow>
                (case defaultLocale first of
                   Some sLang \<Rightarrow> if truthy sLang then Resolved sLang else Resolved JNull
                 | None \<Rightarrow> Resolved JNull)
            | _ \<Rightarrow> Resolved JNull)))"

section \<open>main and the handler of its rejection\<close>

definition userInfo_key :: string where
  "userInfo_key = ''com:missolicitudes:userInfo''"

text \<open>\<^verbatim>\<open>sap.ui.getCore().getConfiguration().setLanguage(sLanguage)\<close>, then the rest.\<close>

definition setLanguage_then :: "framework \<Rightarrow> jsval \<Rightarrow> unit run \<Rightarrow> unit run" where
  "setLanguage_then fw sLanguage rest =
     (case setLanguage fw sLanguage of
        Some error \<Rightarrow> ([SetLanguage sLanguage], Rejected error)
      | None \<Rightarrow> after [SetLanguage sLanguage] rest)"

text \<open>\<^verbatim>\<open>new ComponentContainer({...}).placeAt("content")\<close>, the last statement.\<close>

definition mount :: "framework \<Rightarrow> unit run" where
  "mount fw =
     ([PlaceAt ''com.inetum.missolicitudes'' ''content''],
      (case placeAt fw of Some error \<Rightarrow> Rejected error | None \<Rightarrow> Resolved ()))"

text \<open>
  Step 2 of \<^verbatim>\<open>main\<close> (lines 223 to 230), from the value of \<^verbatim>\<open>oUserData\<close> (\<^const>\<open>JNull\<close>
  when step 1 failed) to the value of \<^verbatim>\<open>sLanguage\<close>. A rejection is caught and leaves
  \<^verbatim>\<open>sLanguage\<close> null.
\<close>

definition main_step2 :: "world \<Rightarrow> json \<Rightarrow> json run" where
  "main_step2 w oUserData =
     (if truthy oUserData \<and> truthy_opt (get_prop oUserData ''name'')
      then (case get_prop oUserData ''name'' of
              None \<Rightarrow> ([], Resolved JNull)
            | Some name \<Rightarrow>
                (case fetchUserLanguageFromSFSF w name of
                   (t, Resolved sLanguage) \<Rightarrow> (t, Resolved sLanguage)
                 | (t, Rejected error) \<Rightarrow> (t, Resolved JNull)
                 | (t, Pending) \<Rightarrow> (t, Pending)))
      else ([], Resolved JNull))"

text \<open>Steps 3 and 4 (lines 232 to 246), from the value of \<^verbatim>\<open>sLanguage\<close>.\<close>

definition main_step3 :: "world \<Rightarrow> framework \<Rightarrow> json \<Rightarrow> unit run" where
  "main_step3 w fw sLanguage =
     setLanguage_then fw
       (if \<not> truthy sLanguage then getBrowserLanguage (nav w) else Data sLanguage)
       (mount fw)"

text \<open>
  \<^verbatim>\<open>main\<close>. The assignment to \<^verbatim>\<open>oUserData\<close> precedes \<^verbatim>\<open>sessionStorage.setItem\<close>, and a
  throw of \<^verbatim>\<open>setItem\<close> is caught by the same \<^verbatim>\<open>catch\<close>, which only logs: what follows the
  call does not depend on how it ended.
\<close>

definition main :: "world \<Rightarrow> framework \<Rightarrow> unit run" where
  "main w fw =
     (let MAX_RETRIES = 5; RETRY_DELAY = 1000
      in case fetchCurrentUser w 1 MAX_RETRIES RETRY_DELAY of
           (t1, Pending) \<Rightarrow> (t1, Pending)
         | (t1, p1) \<Rightarrow>
             (let (stored, oUserData) =
                    (case p1 of
                       Resolved oUserData \<Rightarrow>
                         ([SessionSetItem userInfo_key (JSON_stringify w oUserData)], oUserData)
                     | _ \<Rightarrow> ([], JNull))
              in after (t1 @ stored)
                   (case main_step2 w oUserData of
                      (t2, Resolved sLanguage) \<Rightarrow> after t2 (main_step3 w fw sLanguage)
                    | (t2, Rejected error) \<Rightarrow> (t2, Rejected error)
                    | (t2, Pending) \<Rightarrow> (t2, Pending))))"

text \<open>The arrow function given to \<^verbatim>\<open>main().catch\<close> (lines 251 to 267).\<close>

definition main_catch :: "world \<Rightarrow> framework \<Rightarrow> unit run" where
  "main_catch w fw =
     (let sLang = getBrowserLanguage (nav w)
      in setLanguage_then fw sLang (mount fw))"

text \<open>
  The whole script: \<^verbatim>\<open>main().catch(...)\<close>. The framework is given twice, as it behaves
  while \<^verbatim>\<open>main\<close> runs and as it behaves while the handler runs. The application is mounted
  when the result is \<^term>\<open>Resolved ()\<close>: the last \<^verbatim>\<open>placeAt\<close> returned.
\<close>

definition script :: "world \<Rightarrow> framework \<Rightarrow> framework \<Rightarrow> unit run" where
  "script w fw fw' =
     (case main w fw of
        (t, Rejected error) \<Rightarrow> after t (main_catch w fw')
      | (t, p) \<Rightarrow> (t, p))"

section \<open>Reading a trace\<close>

definition fetches :: "event list \<Rightarrow> nat" where
  "fetches t = count_list t FetchCurrentUser"

fun delays :: "event list \<Rightarrow> nat list" where
  "delays [] = []"
| "delays (SetTimeout ms # es) = ms # delays es"
| "delays (e # es) = delays es"

fun storage_writes :: "event list \<Rightarrow> (string \<times> string) list" where
  "storage_writes [] = []"
| "storage_writes (SessionSetItem k v # es) = (k, v) # storage_writes es"
| "storage_writes (e # es) = storage_writes es"

text \<open>The events of locale resolution and of mounting (steps 2 to 4 of \<^verbatim>\<open>main\<close>).\<close>

fun locale_or_mount :: "event \<Rightarrow> bool" where
  "locale_or_mount (ODataRead p u) = True"
| "locale_or_mount (SetLanguage l) = True"
| "locale_or_mount (PlaceAt n i) = True"
| "locale_or_mount e = False"




text \<open>Five attempts with the four waits of \<^verbatim>\<open>RETRY_DELAY\<close> between them.\<close>

definition five_attempts :: "event list" where
  "five_attempts =
     [FetchCurrentUser, SetTimeout 1000, FetchCurrentUser, SetTimeout 1000,
      FetchCurrentUser, SetTimeout 1000, FetchCurrentUser, SetTimeout 1000,
      FetchCurrentUser]"

section \<open>Sample worlds\<close>

text \<open>
  Concrete collaborators on which the results below are run. \<open>sample_parse\<close> and
  \<open>sample_stringify\<close> stand for \<^verbatim>\<open>JSON.parse\<close> and \<^verbatim>\<open>JSON.stringify\<close> on the texts the
  samples send: a user object, the empty object, and the empty text, which is no JSON.
\<close>

definition ana :: json where
  "ana = JObj [(''name'', JStr ''ana'')]"

definition ana_text :: string where
  \<open>ana_text = ''{"name":"ana"}''\<close>

definition sample_parse :: "string \<Rightarrow> json option" where
  "sample_parse s =
     (if s = ana_text then Some ana else if s = ''{}'' then Some (JObj []) else None)"

definition sample_stringify :: "json \<Rightarrow> string" where
  "sample_stringify v = (if v = ana then ana_text else ''{}'')"

definition http :: "nat \<Rightarrow> string \<Rightarrow> string \<Rightarrow> fetch_result" where
  "http code reason text = Responds \<lparr>status = code, statusText = reason, body = Inr text\<rparr>"

definition sample_world :: "(nat \<Rightarrow> fetch_result) \<Rightarrow> directory_reply \<Rightarrow> world" where
  "sample_world endpoint reply =
     \<lparr>identity_endpoint = endpoint,
      JSON_parse = sample_parse,
      JSON_stringify = sample_stringify,
      directory = (\<lambda>userId. reply),
      nav = \<lparr>language = Some ''fr-FR'', userLanguage = None\<rparr>\<rparr>"

text \<open>Status 500 on attempts 1 to 4, the user on attempt 5.\<close>

definition recovering_endpoint :: "nat \<Rightarrow> fetch_result" where
  "recovering_endpoint attempt =
     (if attempt < 5 then http 500 ''Internal Server Error'' [] else http 200 ''OK'' ana_text)"

text \<open>Status 500 on every attempt but the third, where the request itself fails.\<close>

definition failing_endpoint :: "nat \<Rightarrow> fetch_result" where
  "failing_endpoint attempt =
     (if attempt = 3 then Rejects (Error ''Failed to fetch'')
      else http 500 ''Internal Server Error'' [])"

text \<open>An object without \<^verbatim>\<open>name\<close> on attempts 1 and 2, the user from attempt 3 on.\<close>

definition nameless_endpoint :: "nat \<Rightarrow> fetch_result" where
  "nameless_endpoint attempt =
     (if attempt < 3 then http 200 ''OK'' ''{}'' else http 200 ''OK'' ana_text)"

definition unauthorized_endpoint :: "nat \<Rightarrow> fetch_result" where
  "unauthorized_endpoint attempt = http 401 ''Unauthorized'' []"

definition empty_body_endpoint :: "nat \<Rightarrow> fetch_result" where
  "empty_body_endpoint attempt = http 200 ''OK'' []"

definition user_endpoint :: "nat \<Rightarrow> fetch_result" where
  "user_endpoint attempt = http 200 ''OK'' ana_text"

definition directory_row :: "string \<Rightarrow> directory_reply" where
  "directory_row locale = Success (Some [\<lparr>defaultLocale = Some (JStr locale)\<rparr>])"

text \<open>A framework whose calls return, one that knows three languages only, one that cannot mount.\<close>

definition good_framework :: framework where
  "good_framework = \<lparr>setLanguage = (\<lambda>sLanguage. None), placeAt = None\<rparr>"

definition picky_framework :: framework where
  "picky_framework =
     \<lparr>setLanguage =
        (\<lambda>sLanguage.
           if sLanguage \<in> set [Data (JStr ''es_ES''), Data (JStr ''ca_ES''), Data (JStr ''en_US'')]
           then None else Some (Error ''unsupported language'')),
      placeAt = None\<rparr>"

definition broken_framework :: framework where
  "broken_framework =
     \<lparr>setLanguage = (\<lambda>sLanguage. None), placeAt = Some (Error ''no container'')\<rparr>"

text \<open>
  Two bodies that are JSON and that \<^verbatim>\<open>parseJsonResponse\<close> takes for a page: a user whose
  name holds \<^verbatim>\<open><html>\<close>, and an object without \<^verbatim>\<open>name\<close> that holds it. \<open>tagged_parse\<close>
  stands for \<^verbatim>\<open>JSON.parse\<close> on these two texts and on those of \<open>sample_parse\<close>.
\<close>

definition tagged_user :: json where
  "tagged_user = JObj [(''name'', JStr ''a<html>b'')]"

definition tagged_user_text :: string where
  \<open>tagged_user_text = ''{"name":"a<html>b"}''\<close>

definition tagged_bio :: json where
  "tagged_bio = JObj [(''bio'', JStr ''<html>'')]"

definition tagged_bio_text :: string where
  \<open>tagged_bio_text = ''{"bio":"<html>"}''\<close>

definition tagged_parse :: "string \<Rightarrow> json option" where
  "tagged_parse s =
     (if s = tagged_user_text then Some tagged_user
      else if s = tagged_bio_text then Some tagged_bio
      else sample_parse s)"

definition tagged_world :: "(nat \<Rightarrow> fetch_result) \<Rightarrow> world" where
  "tagged_world endpoint =
     \<lparr>identity_endpoint = endpoint,
      JSON_parse = tagged_parse,
      JSON_stringify = sample_stringify,
      directory = (\<lambda>userId. Failure),
      nav = \<lparr>language = Some ''fr-FR'', userLanguage = None\<rparr>\<rparr>"


definition tagged_bio_endpoint :: "nat \<Rightarrow> fetch_result" where
  "tagged_bio_endpoint attempt = http 200 ''OK'' tagged_bio_text"

section \<open>The page after the script\<close>

text \<open>
  \<^verbatim>\<open>forceLogoutAndReload\<close> installs \<^verbatim>\<open>onreadystatechange\<close> on the request it sends, and the
  script sends no other request of this kind. After \<^verbatim>\<open>send\<close> the browser calls the handler
  at each ready state the request reports; a request ends, answered or failed, in state 4.
  \<open>page_trace\<close> is the trace of the script followed by what the handlers of its requests
  do over the ready states given.
\<close>

fun xhr_handler_events :: "nat list \<Rightarrow> event \<Rightarrow> event list" where
  "xhr_handler_events readyStates (XhrSend method url) =
     concat (map onreadystatechange readyStates)"
| "xhr_handler_events readyStates e = []"

definition page_trace :: "nat list \<Rightarrow> event list \<Rightarrow> event list" where
  "page_trace readyStates t = t @ concat (map (xhr_handler_events readyStates) t)"

section \<open>How one attempt ends\<close>

lemma after_Nil: "after [] r = r"
  by (simp add: after_def)

lemma after_after: "after xs (after ys r) = after (xs @ ys) r"
  by (simp add: after_def)

lemma after_pair: "after xs (t, p) = (xs @ t, p)"
  by (simp add: after_def)

lemma catch_retry:
  "\<not> (attempt = 1 \<and> session_message (message error)) \<Longrightarrow> attempt < maxRetries \<Longrightarrow>
   fetchCurrentUser_catch w attempt maxRetries retryDelay error =
     after [SetTimeout retryDelay] (fetchCurrentUser w (attempt + 1) maxRetries retryDelay)"
  by (subst fetchCurrentUser_catch.simps) auto

lemma catch_rethrow:
  "\<not> (attempt = 1 \<and> session_message (message error)) \<Longrightarrow> \<not> attempt < maxRetries \<Longrightarrow>
   fetchCurrentUser_catch w attempt maxRetries retryDelay error = ([], Rejected error)"
  by (subst fetchCurrentUser_catch.simps) auto

lemma catch_session:
  "attempt = 1 \<Longrightarrow> session_message (message error) \<Longrightarrow>
   fetchCurrentUser_catch w attempt maxRetries retryDelay error = (forceLogoutAndReload, Pending)"
  by (subst fetchCurrentUser_catch.simps) auto



lemma auth_failure:
  "identity_endpoint w attempt = Responds r \<Longrightarrow> status r = 401 \<or> status r = 403 \<Longrightarrow>
   fetchCurrentUser w attempt maxRetries retryDelay =
     (FetchCurrentUser # forceLogoutAndReload, Pending)"
  by (subst fetchCurrentUser.simps) (auto simp: after_def ok_def)


lemma parsed_response:
  "identity_endpoint w attempt = Responds r \<Longrightarrow> ok r \<Longrightarrow>
   parseJsonResponse w r = Inr oUserData \<Longrightarrow>
   fetchCurrentUser w attempt maxRetries retryDelay =
     after [FetchCurrentUser]
       (if \<not> truthy oUserData then (forceLogoutAndReload, Pending)
        else if \<not> truthy_opt (get_prop oUserData ''name'')
        then fetchCurrentUser_catch w attempt maxRetries retryDelay (Error invalid_user_message)
        else ([], Resolved oUserData))"
  by (subst fetchCurrentUser.simps) simp

lemma invalid_user_message_plain: "\<not> session_message invalid_user_message"
  by (simp add: session_message_def invalid_user_message_def startsWith_def)

lemma fetchCurrentUser_events:
  "set (fst (fetchCurrentUser w a m d)) \<subseteq>
     {FetchCurrentUser, SetTimeout d, XhrSend ''GET'' ''/logout''}"
  "set (fst (fetchCurrentUser_catch w a m d e)) \<subseteq>
     {FetchCurrentUser, SetTimeout d, XhrSend ''GET'' ''/logout''}"
proof (induct w a m d and w a m d e rule: fetchCurrentUser_fetchCurrentUser_catch.induct)
  case (1 w attempt maxRetries retryDelay)
  show ?case
    apply (subst fetchCurrentUser.simps)
    using 1
    apply (auto simp: after_def forceLogoutAndReload_def split: fetch_result.splits sum.splits)
    done
next
  case (2 w attempt maxRetries retryDelay error)
  show ?case
    apply (subst fetchCurrentUser_catch.simps)
    using 2
    apply (auto simp: after_def forceLogoutAndReload_def)
    done
qed

lemma fetch_count:
  "fetches (fst (fetchCurrentUser w a m d)) \<le> Suc (m - a)"
  "fetches (fst (fetchCurrentUser_catch w a m d e)) \<le> m - a"
proof (induct w a m d and w a m d e rule: fetchCurrentUser_fetchCurrentUser_catch.induct)
  case (1 w attempt maxRetries retryDelay)
  show ?case
    apply (subst fetchCurrentUser.simps)
    using 1
    apply (auto simp: fetches_def after_def forceLogoutAndReload_def split: fetch_result.splits sum.splits)
    done
next
  case (2 w attempt maxRetries retryDelay error)
  show ?case
    apply (subst fetchCurrentUser_catch.simps)
    using 2
    apply (auto simp: fetches_def after_def forceLogoutAndReload_def)
    done
qed

lemma fetch_delays:
  "d # delays (fst (fetchCurrentUser w a m d)) =
     replicate (fetches (fst (fetchCurrentUser w a m d))) d"
  "delays (fst (fetchCurrentUser_catch w a m d e)) =
     replicate (fetches (fst (fetchCurrentUser_catch w a m d e))) d"
proof (induct w a m d and w a m d e rule: fetchCurrentUser_fetchCurrentUser_catch.induct)
  case (1 w attempt maxRetries retryDelay)
  show ?case
    apply (subst (1 2) fetchCurrentUser.simps)
    using 1
    apply (auto simp: fetches_def after_def forceLogoutAndReload_def split: fetch_result.splits sum.splits)
    done
next
  case (2 w attempt maxRetries retryDelay error)
  show ?case
    apply (subst (1 2) fetchCurrentUser_catch.simps)
    using 2
    apply (auto simp: fetches_def after_def forceLogoutAndReload_def)
    done
qed

lemma fetch_at_last:
  "maxRetries \<le> attempt \<Longrightarrow>
   fst (fetchCurrentUser w attempt maxRetries retryDelay) = [FetchCurrentUser] \<or>
   fetchCurrentUser w attempt maxRetries retryDelay =
     ([FetchCurrentUser, XhrSend ''GET'' ''/logout''], Pending)"
  apply (subst (1 2) fetchCurrentUser.simps)
  apply (auto simp: fetchCurrentUser_catch.simps after_def forceLogoutAndReload_def
              split: fetch_result.splits sum.splits)
  done






section \<open>The results\<close>




text \<open>
  C3. At every attempt number, an answer with status 401 or 403 makes \<^verbatim>\<open>fetchCurrentUser\<close>
  send exactly one GET to \<^verbatim>\<open>/logout\<close> and then stay pending for ever: it is neither
  fulfilled nor rejected, and there is no wait and no further request.
\<close>

theorem fetchCurrentUser_auth_failure:
  assumes "identity_endpoint w attempt = Responds r"
    and "status r = 401 \<or> status r = 403"
  shows "fetchCurrentUser w attempt maxRetries retryDelay =
           ([FetchCurrentUser, XhrSend ''GET'' ''/logout''], Pending) \<and>
         forceLogoutAndReload = [XhrSend ''GET'' ''/logout''] \<and>
         count_list (fst (fetchCurrentUser w attempt maxRetries retryDelay))
           (XhrSend ''GET'' ''/logout'') = 1 \<and>
         fetches (fst (fetchCurrentUser w attempt maxRetries retryDelay)) = 1 \<and>
         delays (fst (fetchCurrentUser w attempt maxRetries retryDelay)) = []"
  using auth_failure [OF assms, of maxRetries retryDelay]
  by (simp add: forceLogoutAndReload_def fetches_def)

theorem fetchCurrentUser_auth_failure_witness:
  "identity_endpoint (sample_world unauthorized_endpoint Failure) 2 =
     http 401 ''Unauthorized'' [] \<and>
   fetchCurrentUser (sample_world unauthorized_endpoint Failure) 2 5 1000 =
     ([FetchCurrentUser, XhrSend ''GET'' ''/logout''], Pending)"
proof -
  let ?w = "sample_world unauthorized_endpoint Failure"
  let ?r = "\<lparr>status = 401, statusText = ''Unauthorized'', body = Inr []\<rparr>"
  have h1: "identity_endpoint ?w 2 = Responds ?r"
    by (simp add: sample_world_def unauthorized_endpoint_def http_def)
  have h2: "status ?r = 401 \<or> status ?r = 403"
    by simp
  show ?thesis
    using h1 fetchCurrentUser_auth_failure [OF h1 h2, of 5 1000]
    by (simp add: http_def)
qed

lemma mMap_keys:
  "fst ` set mMap =
     {''es'', ''es-es'', ''es_es'', ''ca'', ''ca-es'', ''ca_es'', ''en'', ''en-us'', ''en_us''}"
  by (auto simp: mMap_def)

text \<open>
  Of the keys of \<^verbatim>\<open>Object.prototype\<close>, a lower-cased string can spell two only: the
  others have a capital letter.
\<close>

lemma lower_char_not_upper:
  "\<not> (65 \<le> (of_char (lower_char c) :: nat) \<and> (of_char (lower_char c) :: nat) \<le> 90)"
  by (auto simp: lower_char_def Let_def)

lemma toLowerCase_no_upper:
  "c \<in> set (toLowerCase s) \<Longrightarrow> \<not> (65 \<le> (of_char c :: nat) \<and> (of_char c :: nat) \<le> 90)"
  using lower_char_not_upper by (auto simp: toLowerCase_def)

lemma lowered_prototype_keys:
  "toLowerCase s \<in> set Object_prototype \<longleftrightarrow>
   toLowerCase s = ''constructor'' \<or> toLowerCase s = ''__proto__''"
proof -
  have O: "CHR ''O'' \<notin> set (toLowerCase s)" and P: "CHR ''P'' \<notin> set (toLowerCase s)"
    and L: "CHR ''L'' \<notin> set (toLowerCase s)" and S: "CHR ''S'' \<notin> set (toLowerCase s)"
    and G: "CHR ''G'' \<notin> set (toLowerCase s)" and E: "CHR ''E'' \<notin> set (toLowerCase s)"
    using toLowerCase_no_upper [of _ s] by fastforce+
  have "toLowerCase s \<noteq> ''hasOwnProperty''"
       "toLowerCase s \<noteq> ''isPrototypeOf''"
       "toLowerCase s \<noteq> ''propertyIsEnumerable''"
       "toLowerCase s \<noteq> ''toLocaleString''"
       "toLowerCase s \<noteq> ''toString''"
       "toLowerCase s \<noteq> ''valueOf''"
       "toLowerCase s \<noteq> ''__defineGetter__''"
       "toLowerCase s \<noteq> ''__defineSetter__''"
       "toLowerCase s \<noteq> ''__lookupGetter__''"
       "toLowerCase s \<noteq> ''__lookupSetter__''"
    using O P L S G E by auto
  then show ?thesis
    by (auto simp: Object_prototype_def)
qed

text \<open>
  C6. The browser's language tag is lower-cased and looked up in the table: the forms
  \<^verbatim>\<open>es\<close>, \<^verbatim>\<open>es-es\<close>, \<^verbatim>\<open>es_es\<close> give \<^verbatim>\<open>es_ES\<close>, those of \<^verbatim>\<open>ca\<close> give \<^verbatim>\<open>ca_ES\<close>, those of
  \<^verbatim>\<open>en\<close> give \<^verbatim>\<open>en_US\<close>; every other tag, and an absent one, gives \<^verbatim>\<open>en_US\<close>; so the result
  is always one of these three locales. A language tag is made of subtags of at most eight
  letters or digits, so its lower-cased form is neither \<^verbatim>\<open>constructor\<close> nor \<^verbatim>\<open>__proto__\<close>:
  these two strings are no language tags, and they are the only ones for which the read
  \<^verbatim>\<open>mMap[sLang]\<close> finds an inherited member of \<^verbatim>\<open>Object.prototype\<close> in place of a locale.
\<close>

theorem getBrowserLanguage_supported_or_default:
  "(toLowerCase (browser_tag nv) \<in> {''es'', ''es-es'', ''es_es''} \<longrightarrow>
      getBrowserLanguage nv = Data (JStr ''es_ES'')) \<and>
   (toLowerCase (browser_tag nv) \<in> {''ca'', ''ca-es'', ''ca_es''} \<longrightarrow>
      getBrowserLanguage nv = Data (JStr ''ca_ES'')) \<and>
   (toLowerCase (browser_tag nv) \<in> {''en'', ''en-us'', ''en_us''} \<longrightarrow>
      getBrowserLanguage nv = Data (JStr ''en_US'')) \<and>
   (toLowerCase (browser_tag nv) \<notin> fst ` set mMap \<and>
    toLowerCase (browser_tag nv) \<noteq> ''constructor'' \<and>
    toLowerCase (browser_tag nv) \<noteq> ''__proto__'' \<longrightarrow>
      getBrowserLanguage nv = Data (JStr ''en_US'')) \<and>
   (language nv = None \<and> userLanguage nv = None \<longrightarrow>
      getBrowserLanguage nv = Data (JStr ''en_US'')) \<and>
   (toLowerCase (browser_tag nv) \<noteq> ''constructor'' \<and>
    toLowerCase (browser_tag nv) \<noteq> ''__proto__'' \<longrightarrow>
      getBrowserLanguage nv \<in>
        {Data (JStr ''es_ES''), Data (JStr ''ca_ES''), Data (JStr ''en_US'')})"
proof -
  let ?tag = "toLowerCase (browser_tag nv)"
  let ?plain = "?tag \<noteq> ''constructor'' \<and> ?tag \<noteq> ''__proto__''"
  have proto: "?plain \<longleftrightarrow> ?tag \<notin> set Object_prototype"
    by (simp add: lowered_prototype_keys)
  have own: "?tag \<in> {''es'', ''es-es'', ''es_es''} \<longrightarrow>
               getBrowserLanguage nv = Data (JStr ''es_ES'')"
       "?tag \<in> {''ca'', ''ca-es'', ''ca_es''} \<longrightarrow>
               getBrowserLanguage nv = Data (JStr ''ca_ES'')"
       "?tag \<in> {''en'', ''en-us'', ''en_us''} \<longrightarrow>
               getBrowserLanguage nv = Data (JStr ''en_US'')"
    by (auto simp: getBrowserLanguage_def mMap_read_def mMap_def)
  have none: "?tag \<notin> fst ` set mMap \<and> ?plain \<longrightarrow>
               getBrowserLanguage nv = Data (JStr ''en_US'')"
  proof
    assume a: "?tag \<notin> fst ` set mMap \<and> ?plain"
    then have "map_of mMap ?tag = None"
      by (simp add: map_of_eq_None_iff)
    moreover from a proto have "?tag \<notin> set Object_prototype"
      by blast
    ultimately show "getBrowserLanguage nv = Data (JStr ''en_US'')"
      by (simp add: getBrowserLanguage_def mMap_read_def Let_def)
  qed
  have absent: "language nv = None \<and> userLanguage nv = None \<longrightarrow>
               getBrowserLanguage nv = Data (JStr ''en_US'')"
    by (simp add: getBrowserLanguage_def browser_tag_def toLowerCase_def lower_char_def
          mMap_read_def mMap_def Let_def)
  have range: "?plain \<longrightarrow>
      getBrowserLanguage nv \<in>
        {Data (JStr ''es_ES''), Data (JStr ''ca_ES''), Data (JStr ''en_US'')}"
  proof
    assume ?plain
    with proto have free: "?tag \<notin> set Object_prototype"
      by blast
    show "getBrowserLanguage nv \<in>
        {Data (JStr ''es_ES''), Data (JStr ''ca_ES''), Data (JStr ''en_US'')}"
    proof (cases "map_of mMap ?tag")
      case None
      with free show ?thesis
        by (simp add: getBrowserLanguage_def mMap_read_def Let_def)
    next
      case (Some v)
      then have "(?tag, v) \<in> set mMap"
        by (rule map_of_SomeD)
      then have "v \<in> {''es_ES'', ''ca_ES'', ''en_US''}"
        by (auto simp: mMap_def)
      with Some show ?thesis
        by (auto simp: getBrowserLanguage_def mMap_read_def Let_def)
    qed
  qed
  from own none absent range show ?thesis
    by (intro conjI)
qed

theorem getBrowserLanguage_supported_or_default_witness:
  "getBrowserLanguage \<lparr>language = Some ''es-ES'', userLanguage = None\<rparr> = Data (JStr ''es_ES'') \<and>
   getBrowserLanguage \<lparr>language = Some ''CA'', userLanguage = None\<rparr> = Data (JStr ''ca_ES'') \<and>
   getBrowserLanguage \<lparr>language = Some ''en_us'', userLanguage = None\<rparr> = Data (JStr ''en_US'') \<and>
   getBrowserLanguage \<lparr>language = Some ''fr-FR'', userLanguage = None\<rparr> = Data (JStr ''en_US'') \<and>
   getBrowserLanguage \<lparr>language = None, userLanguage = None\<rparr> = Data (JStr ''en_US'') \<and>
   getBrowserLanguage \<lparr>language = Some ''de-DE'', userLanguage = None\<rparr> \<in>
     {Data (JStr ''es_ES''), Data (JStr ''ca_ES''), Data (JStr ''en_US'')}"
proof -
  let ?es = "\<lparr>language = Some ''es-ES'', userLanguage = None\<rparr>"
  let ?ca = "\<lparr>language = Some ''CA'', userLanguage = None\<rparr>"
  let ?en = "\<lparr>language = Some ''en_us'', userLanguage = None\<rparr>"
  let ?fr = "\<lparr>language = Some ''fr-FR'', userLanguage = None\<rparr>"
  let ?no = "\<lparr>language = None, userLanguage = None\<rparr>"
  let ?de = "\<lparr>language = Some ''de-DE'', userLanguage = None\<rparr>"
  have "toLowerCase (browser_tag ?es) = ''es-es''"
    by code_simp
  then have es: "toLowerCase (browser_tag ?es) \<in> {''es'', ''es-es'', ''es_es''}"
    by simp
  have "toLowerCase (browser_tag ?ca) = ''ca''"
    by code_simp
  then have ca: "toLowerCase (browser_tag ?ca) \<in> {''ca'', ''ca-es'', ''ca_es''}"
    by simp
  have "toLowerCase (browser_tag ?en) = ''en_us''"
    by code_simp
  then have en: "toLowerCase (browser_tag ?en) \<in> {''en'', ''en-us'', ''en_us''}"
    by simp
  have "toLowerCase (browser_tag ?fr) = ''fr-fr''"
    by code_simp
  then have fr: "toLowerCase (browser_tag ?fr) \<notin> fst ` set mMap \<and>
            toLowerCase (browser_tag ?fr) \<noteq> ''constructor'' \<and>
            toLowerCase (browser_tag ?fr) \<noteq> ''__proto__''"
    by (simp add: mMap_keys)
  have no: "language ?no = None \<and> userLanguage ?no = None"
    by simp
  have 1: "getBrowserLanguage ?es = Data (JStr ''es_ES'')"
    using es getBrowserLanguage_supported_or_default [of ?es] by blast
  have 2: "getBrowserLanguage ?ca = Data (JStr ''ca_ES'')"
    using ca getBrowserLanguage_supported_or_default [of ?ca] by blast
  have 3: "getBrowserLanguage ?en = Data (JStr ''en_US'')"
    using en getBrowserLanguage_supported_or_default [of ?en] by blast
  have 4: "getBrowserLanguage ?fr = Data (JStr ''en_US'')"
    using fr getBrowserLanguage_supported_or_default [of ?fr] by blast
  have 5: "getBrowserLanguage ?no = Data (JStr ''en_US'')"
    using no getBrowserLanguage_supported_or_default [of ?no] by blast
  have "toLowerCase (browser_tag ?de) = ''de-de''"
    by code_simp
  then have de: "toLowerCase (browser_tag ?de) \<noteq> ''constructor'' \<and>
                 toLowerCase (browser_tag ?de) \<noteq> ''__proto__''"
    by simp
  have 6: "getBrowserLanguage ?de \<in>
             {Data (JStr ''es_ES''), Data (JStr ''ca_ES''), Data (JStr ''en_US'')}"
    using de getBrowserLanguage_supported_or_default [of ?de] by blast
  from 1 2 3 4 5 6 show ?thesis
    by (intro conjI)
qed

lemma fetches_positive: "1 \<le> fetches (fst (fetchCurrentUser w a m d))"
proof -
  have "replicate (fetches (fst (fetchCurrentUser w a m d))) d \<noteq> []"
    using fetch_delays(1) [of d w a m] by (metis list.distinct(1))
  then show ?thesis
    by (cases "fetches (fst (fetchCurrentUser w a m d))") simp_all
qed

text \<open>
  C10. The chain of \<^verbatim>\<open>fetchCurrentUser\<close> makes at least one request and at most
  \<^verbatim>\<open>maxRetries - attempt + 1\<close> of them, hence at most \<^verbatim>\<open>maxRetries\<close> for \<^verbatim>\<open>maxRetries\<close> at least
  1 and a starting attempt between 1 and \<^verbatim>\<open>maxRetries\<close> (attempts are counted from 1), with
  one wait of \<^verbatim>\<open>retryDelay\<close> before each request after the first; from \<^verbatim>\<open>attempt = maxRetries\<close>
  on there is one request and no wait. The function is total: every retry is made with
  \<^verbatim>\<open>attempt + 1\<close> under the guard \<^verbatim>\<open>attempt < maxRetries\<close>, which is the measure of its
  termination proof.
\<close>

theorem fetchCurrentUser_bounded_attempts:
  "1 \<le> fetches (fst (fetchCurrentUser w attempt maxRetries retryDelay)) \<and>
   fetches (fst (fetchCurrentUser w attempt maxRetries retryDelay))
     \<le> Suc (maxRetries - attempt) \<and>
   (1 \<le> attempt \<and> attempt \<le> maxRetries \<longrightarrow>
      fetches (fst (fetchCurrentUser w attempt maxRetries retryDelay)) \<le> maxRetries) \<and>
   delays (fst (fetchCurrentUser w attempt maxRetries retryDelay)) =
     replicate (fetches (fst (fetchCurrentUser w attempt maxRetries retryDelay)) - 1)
       retryDelay \<and>
   (maxRetries \<le> attempt \<longrightarrow>
      fetches (fst (fetchCurrentUser w attempt maxRetries retryDelay)) = 1 \<and>
      delays (fst (fetchCurrentUser w attempt maxRetries retryDelay)) = [])"
proof -
  let ?t = "fst (fetchCurrentUser w attempt maxRetries retryDelay)"
  have pos: "1 \<le> fetches ?t"
    by (rule fetches_positive)
  have bound: "fetches ?t \<le> Suc (maxRetries - attempt)"
    by (rule fetch_count(1))
  have waits: "retryDelay # delays ?t = replicate (fetches ?t) retryDelay"
    by (rule fetch_delays(1))
  have waits': "delays ?t = replicate (fetches ?t - 1) retryDelay"
  proof (cases "fetches ?t")
    case 0
    with pos show ?thesis by simp
  next
    case (Suc n)
    with waits show ?thesis by simp
  qed
  have within: "1 \<le> attempt \<and> attempt \<le> maxRetries \<longrightarrow> fetches ?t \<le> maxRetries"
    using bound by auto
  have last: "maxRetries \<le> attempt \<longrightarrow> fetches ?t = 1 \<and> delays ?t = []"
    using fetch_at_last [of maxRetries attempt w retryDelay]
    by (auto simp: fetches_def)
  from pos bound within waits' last show ?thesis
    by (intro conjI)
qed

theorem fetchCurrentUser_bounded_attempts_witness:
  "fetches (fst (fetchCurrentUser (sample_world failing_endpoint Failure) 1 5 1000)) \<le> 5 \<and>
   fetches (fst (fetchCurrentUser (sample_world failing_endpoint Failure) 1 5 1000)) = 5 \<and>
   delays (fst (fetchCurrentUser (sample_world failing_endpoint Failure) 1 5 1000)) =
     [1000, 1000, 1000, 1000] \<and>
   fetches (fst (fetchCurrentUser (sample_world failing_endpoint Failure) 5 5 1000)) = 1 \<and>
   delays (fst (fetchCurrentUser (sample_world failing_endpoint Failure) 5 5 1000)) = []"
proof -
  let ?w = "sample_world failing_endpoint Failure"
  have five: "fetches (fst (fetchCurrentUser ?w 1 5 1000)) = 5"
    by code_simp
  have h1: "(1::nat) \<le> 1 \<and> (1::nat) \<le> 5"
    by simp
  have h2: "(5::nat) \<le> 5"
    by simp
  note first = fetchCurrentUser_bounded_attempts [of ?w 1 5 1000]
  note last = fetchCurrentUser_bounded_attempts [of ?w 5 5 1000]
  have 0: "fetches (fst (fetchCurrentUser ?w 1 5 1000)) \<le> 5"
    using first h1 by blast
  have 1: "delays (fst (fetchCurrentUser ?w 1 5 1000)) = [1000, 1000, 1000, 1000]"
    using first five by (simp add: eval_nat_numeral)
  have 2: "fetches (fst (fetchCurrentUser ?w 5 5 1000)) = 1 \<and>
           delays (fst (fetchCurrentUser ?w 5 5 1000)) = []"
    using last h2 by blast
  from 0 five 1 2 show ?thesis
    by simp
qed

lemma null_forces_logout:
  "identity_endpoint w attempt = Responds r \<Longrightarrow> ok r \<Longrightarrow>
   parseJsonResponse w r = Inr JNull \<Longrightarrow>
   fetchCurrentUser w attempt maxRetries retryDelay =
     ([FetchCurrentUser, XhrSend ''GET'' ''/logout''], Pending)"
  by (simp add: parsed_response [where oUserData = JNull] after_pair forceLogoutAndReload_def)

lemma handler_reloads_once:
  "4 \<notin> set readyStates \<Longrightarrow>
   concat (map onreadystatechange (readyStates @ [4])) = [LocationReload True]"
  by (induct readyStates) (auto simp: onreadystatechange_def)

text \<open>
  C9. On a body that was read, \<^verbatim>\<open>parseJsonResponse\<close> returns \<^verbatim>\<open>null\<close> when the text, trimmed,
  starts with \<^verbatim>\<open><\<close> or contains \<^verbatim>\<open><html>\<close>, and also whenever \<^verbatim>\<open>JSON.parse\<close> throws on it (an
  empty body, for one). Every \<^verbatim>\<open>null\<close> it returns for a successful response triggers forced
  re-authentication, whatever the attempt: \<^verbatim>\<open>fetchCurrentUser\<close> calls
  \<^verbatim>\<open>forceLogoutAndReload\<close>, which sends the logout request, and stays pending; and when that
  request reaches ready state 4 its handler reloads the page, once and bypassing the cache.
  So forced re-authentication has more triggers than an HTML body.
\<close>

theorem parseJsonResponse_null_forces_reauthentication:
  "(body r = Inr text \<and>
    (startsWith (trim text) ''<'' \<or> includes_str text ''<html>'' \<or> JSON_parse w text = None) \<longrightarrow>
      parseJsonResponse w r = Inr JNull) \<and>
   (identity_endpoint w attempt = Responds r \<and> ok r \<and> parseJsonResponse w r = Inr JNull \<longrightarrow>
      fetchCurrentUser w attempt maxRetries retryDelay =
        ([FetchCurrentUser, XhrSend ''GET'' ''/logout''], Pending)) \<and>
   (identity_endpoint w attempt = Responds r \<and> ok r \<and> parseJsonResponse w r = Inr JNull \<and>
    4 \<notin> set readyStates \<longrightarrow>
      fetchCurrentUser w attempt maxRetries retryDelay =
        (FetchCurrentUser # forceLogoutAndReload, Pending) \<and>
      page_trace (readyStates @ [4])
        (fst (fetchCurrentUser w attempt maxRetries retryDelay)) =
        [FetchCurrentUser, XhrSend ''GET'' ''/logout'', LocationReload True])"
proof (intro conjI impI)
  assume "body r = Inr text \<and>
    (startsWith (trim text) ''<'' \<or> includes_str text ''<html>'' \<or> JSON_parse w text = None)"
  then show "parseJsonResponse w r = Inr JNull"
    by (auto simp: parseJsonResponse_def looks_like_html_def)
next
  assume "identity_endpoint w attempt = Responds r \<and> ok r \<and> parseJsonResponse w r = Inr JNull"
  then show "fetchCurrentUser w attempt maxRetries retryDelay =
        ([FetchCurrentUser, XhrSend ''GET'' ''/logout''], Pending)"
    by (simp add: null_forces_logout)
next
  assume a: "identity_endpoint w attempt = Responds r \<and> ok r \<and>
             parseJsonResponse w r = Inr JNull \<and> 4 \<notin> set readyStates"
  then show "fetchCurrentUser w attempt maxRetries retryDelay =
        (FetchCurrentUser # forceLogoutAndReload, Pending)"
    by (simp add: null_forces_logout forceLogoutAndReload_def)
next
  assume a: "identity_endpoint w attempt = Responds r \<and> ok r \<and>
             parseJsonResponse w r = Inr JNull \<and> 4 \<notin> set readyStates"
  then have "fst (fetchCurrentUser w attempt maxRetries retryDelay) =
               [FetchCurrentUser, XhrSend ''GET'' ''/logout'']"
    by (simp add: null_forces_logout)
  moreover from a have "4 \<notin> set readyStates"
    by simp
  then have "concat (map onreadystatechange (readyStates @ [4])) = [LocationReload True]"
    by (rule handler_reloads_once)
  ultimately show "page_trace (readyStates @ [4])
        (fst (fetchCurrentUser w attempt maxRetries retryDelay)) =
        [FetchCurrentUser, XhrSend ''GET'' ''/logout'', LocationReload True]"
    by (simp add: page_trace_def)
qed

theorem parseJsonResponse_null_forces_reauthentication_witness:
  "\<not> looks_like_html [] \<and>
   JSON_parse (sample_world empty_body_endpoint Failure) [] = None \<and>
   parseJsonResponse (sample_world empty_body_endpoint Failure)
     \<lparr>status = 200, statusText = ''OK'', body = Inr []\<rparr> = Inr JNull \<and>
   fetchCurrentUser (sample_world empty_body_endpoint Failure) 3 5 1000 =
     ([FetchCurrentUser, XhrSend ''GET'' ''/logout''], Pending) \<and>
   page_trace [2, 3, 4]
     (fst (fetchCurrentUser (sample_world empty_body_endpoint Failure) 3 5 1000)) =
     [FetchCurrentUser, XhrSend ''GET'' ''/logout'', LocationReload True]"
proof -
  let ?w = "sample_world empty_body_endpoint Failure"
  let ?r = "\<lparr>status = 200, statusText = ''OK'', body = Inr []\<rparr>"
  note run = parseJsonResponse_null_forces_reauthentication
    [of ?r "[]" ?w 3 5 1000 "[2, 3]"]
  have nohtml: "\<not> looks_like_html []"
    by (simp add: looks_like_html_def trim_def startsWith_def)
  have noparse: "JSON_parse ?w [] = None"
    by (simp add: sample_world_def sample_parse_def ana_text_def)
  have h1: "body ?r = Inr [] \<and>
    (startsWith (trim []) ''<'' \<or> includes_str [] ''<html>'' \<or> JSON_parse ?w [] = None)"
    using noparse by simp
  have null: "parseJsonResponse ?w ?r = Inr JNull"
    using h1 run by blast
  have h2: "identity_endpoint ?w 3 = Responds ?r \<and> ok ?r \<and> parseJsonResponse ?w ?r = Inr JNull"
    using null by (simp add: sample_world_def empty_body_endpoint_def http_def ok_def)
  have pending: "fetchCurrentUser ?w 3 5 1000 =
      ([FetchCurrentUser, XhrSend ''GET'' ''/logout''], Pending)"
    using h2 run by blast
  have h3: "(4::nat) \<notin> set [2, 3]"
    by simp
  have "page_trace ([2, 3] @ [4]) (fst (fetchCurrentUser ?w 3 5 1000)) =
      [FetchCurrentUser, XhrSend ''GET'' ''/logout'', LocationReload True]"
    using h2 h3 run by blast
  then have reload: "page_trace [2, 3, 4] (fst (fetchCurrentUser ?w 3 5 1000)) =
      [FetchCurrentUser, XhrSend ''GET'' ''/logout'', LocationReload True]"
    by simp
  from nohtml noparse null pending reload show ?thesis
    by (intro conjI)
qed

text \<open>
  C1, as the code has it. When the response is successful and its body parses to a truthy
  value without a truthy \<^verbatim>\<open>name\<close>, there are two cases. If the text, trimmed, starts with
  \<^verbatim>\<open><\<close> or the text contains \<^verbatim>\<open><html>\<close>, \<^verbatim>\<open>parseJsonResponse\<close> returns \<^verbatim>\<open>null\<close> without
  parsing, and the call sends the logout request and stays pending. Otherwise the error of
  line 130 is thrown inside the \<^verbatim>\<open>try\<close> block and caught by the \<^verbatim>\<open>catch\<close> block; its message
  contains neither \<^verbatim>\<open>JSON\<close> nor \<^verbatim>\<open>HTML\<close>, so it is not taken for a session error on any
  attempt, the first included: while \<^verbatim>\<open>attempt < maxRetries\<close> the call waits \<^verbatim>\<open>retryDelay\<close>
  and retries with \<^verbatim>\<open>attempt + 1\<close>, and otherwise it is rejected with that error after its
  one request.
\<close>

theorem fetchCurrentUser_nameless_user_is_retried:
  assumes "identity_endpoint w attempt = Responds r"
    and "ok r"
    and "body r = Inr text"
    and "JSON_parse w text = Some oUserData"
    and "truthy oUserData"
    and "\<not> truthy_opt (get_prop oUserData ''name'')"
  shows "fetchCurrentUser w attempt maxRetries retryDelay =
           (if startsWith (trim text) ''<'' \<or> includes_str text ''<html>''
            then ([FetchCurrentUser, XhrSend ''GET'' ''/logout''], Pending)
            else if attempt < maxRetries
            then after [FetchCurrentUser, SetTimeout retryDelay]
                   (fetchCurrentUser w (attempt + 1) maxRetries retryDelay)
            else ([FetchCurrentUser], Rejected (Error invalid_user_message))) \<and>
         \<not> session_message invalid_user_message"
proof (cases "looks_like_html text")
  case True
  then have "parseJsonResponse w r = Inr JNull"
    using assms(3) by (simp add: parseJsonResponse_def)
  then have "fetchCurrentUser w attempt maxRetries retryDelay =
               ([FetchCurrentUser, XhrSend ''GET'' ''/logout''], Pending)"
    using assms(1,2) by (simp add: null_forces_logout)
  with True show ?thesis
    by (simp add: looks_like_html_def invalid_user_message_plain)
next
  case False
  then have parsed: "parseJsonResponse w r = Inr oUserData"
    using assms(3,4) by (simp add: parseJsonResponse_def)
  have plain: "\<not> (attempt = 1 \<and> session_message (message (Error invalid_user_message)))"
    by (simp add: invalid_user_message_plain)
  have "fetchCurrentUser w attempt maxRetries retryDelay =
          after [FetchCurrentUser]
            (fetchCurrentUser_catch w attempt maxRetries retryDelay (Error invalid_user_message))"
    using parsed_response [OF assms(1,2) parsed] assms(5,6) by simp
  also have "\<dots> =
          (if attempt < maxRetries
            then after [FetchCurrentUser, SetTimeout retryDelay]
                   (fetchCurrentUser w (attempt + 1) maxRetries retryDelay)
            else ([FetchCurrentUser], Rejected (Error invalid_user_message)))"
    using plain by (simp add: catch_retry catch_rethrow after_after after_pair)
  finally show ?thesis
    using False by (simp add: looks_like_html_def invalid_user_message_plain)
qed

theorem fetchCurrentUser_nameless_user_is_retried_witness:
  "identity_endpoint (sample_world nameless_endpoint Failure) 2 = http 200 ''OK'' ''{}'' \<and>
   JSON_parse (sample_world nameless_endpoint Failure) ''{}'' = Some (JObj []) \<and>
   fetchCurrentUser (sample_world nameless_endpoint Failure) 2 5 1000 =
     after [FetchCurrentUser, SetTimeout 1000]
       (fetchCurrentUser (sample_world nameless_endpoint Failure) 3 5 1000) \<and>
   fetchCurrentUser (sample_world nameless_endpoint Failure) 2 2 1000 =
     ([FetchCurrentUser], Rejected (Error invalid_user_message)) \<and>
   JSON_parse (tagged_world tagged_bio_endpoint) tagged_bio_text = Some tagged_bio \<and>
   fetchCurrentUser (tagged_world tagged_bio_endpoint) 1 5 1000 =
     ([FetchCurrentUser, XhrSend ''GET'' ''/logout''], Pending)"
proof -
  let ?w = "sample_world nameless_endpoint Failure"
  let ?r = "\<lparr>status = 200, statusText = ''OK'', body = Inr ''{}''\<rparr>"
  have h1: "identity_endpoint ?w 2 = Responds ?r"
    by (simp add: sample_world_def nameless_endpoint_def http_def)
  have h2: "ok ?r"
    by (simp add: ok_def)
  have h3: "body ?r = Inr ''{}''"
    by simp
  have h4: "\<not> (startsWith (trim ''{}'') ''<'' \<or> includes_str ''{}'' ''<html>'')"
    by (simp add: trim_def startsWith_def is_space_def)
  have h5: "JSON_parse ?w ''{}'' = Some (JObj [])"
    by (simp add: sample_world_def sample_parse_def ana_text_def)
  have h6: "truthy (JObj [])"
    by simp
  have h7: "\<not> truthy_opt (get_prop (JObj []) ''name'')"
    by (simp add: truthy_opt_def)
  have plain: "identity_endpoint ?w 2 = http 200 ''OK'' ''{}'' \<and>
      JSON_parse ?w ''{}'' = Some (JObj []) \<and>
      fetchCurrentUser ?w 2 5 1000 =
        after [FetchCurrentUser, SetTimeout 1000] (fetchCurrentUser ?w 3 5 1000) \<and>
      fetchCurrentUser ?w 2 2 1000 = ([FetchCurrentUser], Rejected (Error invalid_user_message))"
    using h1 h4 h5
      fetchCurrentUser_nameless_user_is_retried [OF h1 h2 h3 h5 h6 h7, of 5 1000]
      fetchCurrentUser_nameless_user_is_retried [OF h1 h2 h3 h5 h6 h7, of 2 1000]
    by (simp add: http_def)
  let ?v = "tagged_world tagged_bio_endpoint"
  let ?s = "\<lparr>status = 200, statusText = ''OK'', body = Inr tagged_bio_text\<rparr>"
  have g1: "identity_endpoint ?v 1 = Responds ?s"
    by (simp add: tagged_world_def tagged_bio_endpoint_def http_def)
  have g2: "ok ?s"
    by (simp add: ok_def)
  have g3: "body ?s = Inr tagged_bio_text"
    by simp
  have g4: "startsWith (trim tagged_bio_text) ''<'' \<or> includes_str tagged_bio_text ''<html>''"
    by code_simp
  have g5: "JSON_parse ?v tagged_bio_text = Some tagged_bio"
    by code_simp
  have g6: "truthy tagged_bio"
    by (simp add: tagged_bio_def)
  have g7: "\<not> truthy_opt (get_prop tagged_bio ''name'')"
    by (simp add: tagged_bio_def truthy_opt_def)
  have page: "fetchCurrentUser ?v 1 5 1000 =
      ([FetchCurrentUser, XhrSend ''GET'' ''/logout''], Pending)"
    using g4 fetchCurrentUser_nameless_user_is_retried [OF g1 g2 g3 g5 g6 g7, of 5 1000]
    by simp
  from plain g5 page show ?thesis
    by simp
qed

text \<open>
  C1 as stated fails: with an object without \<^verbatim>\<open>name\<close> on attempts 1 and 2 and the user on
  attempt 3, the call from attempt 1 is not sent to re-authentication and the call from
  attempt 2 is not rejected at once; both wait, retry and are fulfilled with the user.
\<close>

theorem fetchCurrentUser_nameless_user_counterexample:
  "fetchCurrentUser (sample_world nameless_endpoint Failure) 1 5 1000 =
     ([FetchCurrentUser, SetTimeout 1000, FetchCurrentUser, SetTimeout 1000, FetchCurrentUser],
      Resolved ana) \<and>
   fetchCurrentUser (sample_world nameless_endpoint Failure) 1 5 1000 \<noteq>
     ([FetchCurrentUser, XhrSend ''GET'' ''/logout''], Pending) \<and>
   fetchCurrentUser (sample_world nameless_endpoint Failure) 2 5 1000 =
     ([FetchCurrentUser, SetTimeout 1000, FetchCurrentUser], Resolved ana) \<and>
   fetchCurrentUser (sample_world nameless_endpoint Failure) 2 5 1000 \<noteq>
     ([FetchCurrentUser], Rejected (Error invalid_user_message))"
  by code_simp

lemma main_pending:
  "fetchCurrentUser w 1 5 1000 = (t, Pending) \<Longrightarrow> main w fw = (t, Pending)"
  by (simp add: main_def)

lemma main_step2_null: "main_step2 w JNull = ([], Resolved JNull)"
  by (simp add: main_step2_def)

lemma main_step3_null:
  "main_step3 w fw JNull = setLanguage_then fw (getBrowserLanguage (nav w)) (mount fw)"
  by (simp add: main_step3_def)

lemma main_rejected:
  "fetchCurrentUser w 1 5 1000 = (t, Rejected error) \<Longrightarrow>
   main w fw = after t (setLanguage_then fw (getBrowserLanguage (nav w)) (mount fw))"
  by (simp add: main_def main_step2_null main_step3_null after_Nil)

lemma main_resolved:
  "fetchCurrentUser w 1 5 1000 = (t, Resolved user) \<Longrightarrow>
   main w fw =
     after (t @ [SessionSetItem userInfo_key (JSON_stringify w user)])
       (case main_step2 w user of
          (t2, Resolved sLanguage) \<Rightarrow> after t2 (main_step3 w fw sLanguage)
        | (t2, Rejected error) \<Rightarrow> (t2, Rejected error)
        | (t2, Pending) \<Rightarrow> (t2, Pending))"
  by (simp add: main_def)

lemma sfsf_resolves:
  "\<exists>v. snd (fetchUserLanguageFromSFSF w userId) = Resolved v"
  by (auto simp: fetchUserLanguageFromSFSF_def
           split: directory_reply.splits option.splits list.splits)

lemma snd_after: "snd (after es r) = snd r"
  by (simp add: after_def)

lemma fst_after: "fst (after es r) = es @ fst r"
  by (simp add: after_def)

lemma resolved_user_valid:
  "snd (fetchCurrentUser w a m d) = Resolved user \<longrightarrow>
     truthy user \<and> truthy_opt (get_prop user ''name'')"
  "snd (fetchCurrentUser_catch w a m d e) = Resolved user \<longrightarrow>
     truthy user \<and> truthy_opt (get_prop user ''name'')"
proof (induct w a m d and w a m d e rule: fetchCurrentUser_fetchCurrentUser_catch.induct)
  case (1 w attempt maxRetries retryDelay)
  show ?case
    apply (subst fetchCurrentUser.simps)
    using 1
    apply (auto simp: snd_after split: fetch_result.splits sum.splits)
    done
next
  case (2 w attempt maxRetries retryDelay error)
  show ?case
    apply (subst fetchCurrentUser_catch.simps)
    using 2
    apply (auto simp: snd_after)
    done
qed


lemma storage_writes_append:
  "storage_writes (xs @ ys) = storage_writes xs @ storage_writes ys"
  by (induct xs rule: storage_writes.induct) simp_all

lemma retry_events_quiet:
  "set t \<subseteq> {FetchCurrentUser, SetTimeout d, XhrSend ''GET'' ''/logout''} \<Longrightarrow>
   storage_writes t = [] \<and> \<not> list_ex locale_or_mount t"
  by (induct t) auto

lemma after_steps_store_nothing:
  "storage_writes
     (fst (case main_step2 w user of
             (t2, Resolved sLanguage) \<Rightarrow> after t2 (main_step3 w fw sLanguage)
           | (t2, Rejected error) \<Rightarrow> (t2, Rejected error)
           | (t2, Pending) \<Rightarrow> (t2, Pending))) = []"
  by (auto simp: main_step2_def main_step3_def fetchUserLanguageFromSFSF_def
        setLanguage_then_def mount_def after_def
        split: option.splits directory_reply.splits list.splits prod.splits promise.splits)



text \<open>
  C5, as the code has it. When \<^verbatim>\<open>main\<close> is rejected, the handler of \<^verbatim>\<open>main().catch\<close> runs:
  it takes the locale from the browser alone, calls \<^verbatim>\<open>setLanguage\<close> with it and then mounts
  the root component. The handler has no \<^verbatim>\<open>try\<close> of its own, so the application ends up
  mounted exactly when these two framework calls of the handler return.
\<close>

theorem script_mounts_when_handler_calls_return:
  assumes "main w fw = (t, Rejected error)"
  shows "script w fw fw' =
           after t (setLanguage_then fw' (getBrowserLanguage (nav w)) (mount fw')) \<and>
         (setLanguage fw' (getBrowserLanguage (nav w)) = None \<and> placeAt fw' = None \<longrightarrow>
            script w fw fw' =
              (t @ [SetLanguage (getBrowserLanguage (nav w)),
                    PlaceAt ''com.inetum.missolicitudes'' ''content''],
               Resolved ())) \<and>
         (snd (script w fw fw') = Resolved ()) =
           (setLanguage fw' (getBrowserLanguage (nav w)) = None \<and> placeAt fw' = None)"
  using assms
  by (auto simp: script_def main_catch_def setLanguage_then_def mount_def after_def
        split: option.splits)

theorem script_mounts_when_handler_calls_return_witness:
  "main (sample_world user_endpoint (directory_row ''de_DE'')) picky_framework =
     ([FetchCurrentUser, SessionSetItem userInfo_key ana_text,
       ODataRead ''/User'' (JStr ''ana''), SetLanguage (Data (JStr ''de_DE''))],
      Rejected (Error ''unsupported language'')) \<and>
   script (sample_world user_endpoint (directory_row ''de_DE'')) picky_framework picky_framework =
     ([FetchCurrentUser, SessionSetItem userInfo_key ana_text,
       ODataRead ''/User'' (JStr ''ana''), SetLanguage (Data (JStr ''de_DE'')),
       SetLanguage (Data (JStr ''en_US'')), PlaceAt ''com.inetum.missolicitudes'' ''content''],
      Resolved ())"
proof -
  let ?w = "sample_world user_endpoint (directory_row ''de_DE'')"
  have m: "main ?w picky_framework =
     ([FetchCurrentUser, SessionSetItem userInfo_key ana_text,
       ODataRead ''/User'' (JStr ''ana''), SetLanguage (Data (JStr ''de_DE''))],
      Rejected (Error ''unsupported language''))"
    by code_simp
  have b: "getBrowserLanguage (nav ?w) = Data (JStr ''en_US'')"
    by code_simp
  have f: "setLanguage picky_framework (Data (JStr ''en_US'')) = None \<and>
           placeAt picky_framework = None"
    by (simp add: picky_framework_def)
  note run = script_mounts_when_handler_calls_return [OF m, of picky_framework, unfolded b]
  have "script ?w picky_framework picky_framework =
     ([FetchCurrentUser, SessionSetItem userInfo_key ana_text,
       ODataRead ''/User'' (JStr ''ana''), SetLanguage (Data (JStr ''de_DE''))] @
      [SetLanguage (Data (JStr ''en_US'')), PlaceAt ''com.inetum.missolicitudes'' ''content''],
      Resolved ())"
    using run f by blast
  with m show ?thesis
    by simp
qed

text \<open>
  C5 as stated fails: with a framework whose \<^verbatim>\<open>placeAt\<close> throws, \<^verbatim>\<open>main\<close> is rejected at its
  last statement, the handler sets the locale of the browser, calls \<^verbatim>\<open>placeAt\<close> again and
  is rejected too. The application is not mounted.
\<close>

theorem script_not_mounted_counterexample:
  "main (sample_world failing_endpoint Failure) broken_framework =
     (five_attempts @
        [SetLanguage (Data (JStr ''en_US'')), PlaceAt ''com.inetum.missolicitudes'' ''content''],
      Rejected (Error ''no container'')) \<and>
   script (sample_world failing_endpoint Failure) broken_framework broken_framework =
     (five_attempts @
        [SetLanguage (Data (JStr ''en_US'')), PlaceAt ''com.inetum.missolicitudes'' ''content'',
         SetLanguage (Data (JStr ''en_US'')), PlaceAt ''com.inetum.missolicitudes'' ''content''],
      Rejected (Error ''no container'')) \<and>
   snd (script (sample_world failing_endpoint Failure) broken_framework broken_framework) \<noteq>
     Resolved ()"
  by code_simp


lemma main_step2_user:
  assumes "truthy user" and "get_prop user ''name'' = Some userId" and "truthy userId"
  shows "main_step2 w user = fetchUserLanguageFromSFSF w userId"
proof -
  obtain v where "snd (fetchUserLanguageFromSFSF w userId) = Resolved v"
    using sfsf_resolves by blast
  then obtain t2 where "fetchUserLanguageFromSFSF w userId = (t2, Resolved v)"
    by (cases "fetchUserLanguageFromSFSF w userId") simp
  then show ?thesis
    using assms by (simp add: main_step2_def truthy_opt_def)
qed

lemma main_with_user:
  assumes "fetchCurrentUser w 1 5 1000 = (t, Resolved user)"
    and "get_prop user ''name'' = Some userId"
    and "snd (fetchUserLanguageFromSFSF w userId) = Resolved sLanguage"
  shows "main w fw =
           after (t @ SessionSetItem userInfo_key (JSON_stringify w user) #
                    fst (fetchUserLanguageFromSFSF w userId))
             (setLanguage_then fw
                (if truthy sLanguage then Data sLanguage else getBrowserLanguage (nav w))
                (mount fw))"
proof -
  have valid: "truthy user \<and> truthy_opt (get_prop user ''name'')"
    using resolved_user_valid(1) [of w 1 5 1000 user] assms(1) by simp
  then have step2: "main_step2 w user = fetchUserLanguageFromSFSF w userId"
    using assms(2) by (simp add: main_step2_user truthy_opt_def)
  obtain t2 where pair: "fetchUserLanguageFromSFSF w userId = (t2, Resolved sLanguage)"
    using assms(3) by (cases "fetchUserLanguageFromSFSF w userId") simp
  have "main w fw =
     after (t @ [SessionSetItem userInfo_key (JSON_stringify w user)])
       (after t2 (main_step3 w fw sLanguage))"
    using main_resolved [OF assms(1), of fw] step2 pair by simp
  then show ?thesis
    by (simp add: pair main_step3_def after_after)
qed

text \<open>
  C7. For every \<^verbatim>\<open>userId\<close>: when the Directory Service returns a non-empty list whose first
  row has a truthy \<^verbatim>\<open>defaultLocale\<close>, \<^verbatim>\<open>fetchUserLanguageFromSFSF\<close> is fulfilled with that
  locale; when the list is empty or absent, the first row's \<^verbatim>\<open>defaultLocale\<close> is empty or
  absent, or the query fails or throws, it is fulfilled with \<^verbatim>\<open>null\<close>; it is never rejected.
  In \<^verbatim>\<open>main\<close>, after a resolved user, a truthy locale goes to \<^verbatim>\<open>setLanguage\<close> as it is, and
  the browser is not asked; after \<^verbatim>\<open>null\<close> the locale of the browser is set.
\<close>

theorem fetchUserLanguageFromSFSF_locale_or_null:
  "(directory w userId = Success (Some (first # others)) \<and>
    defaultLocale first = Some sLang \<and> truthy sLang \<longrightarrow>
      fetchUserLanguageFromSFSF w userId = ([ODataRead ''/User'' userId], Resolved sLang)) \<and>
   (directory w userId = Success (Some []) \<or> directory w userId = Success None \<or>
    (directory w userId = Success (Some (first # others)) \<and>
     \<not> truthy_opt (defaultLocale first)) \<or>
    directory w userId = Failure \<or> directory w userId = Throws error \<longrightarrow>
      snd (fetchUserLanguageFromSFSF w userId) = Resolved JNull) \<and>
   (\<exists>v. snd (fetchUserLanguageFromSFSF w userId) = Resolved v) \<and>
   (fetchCurrentUser w 1 5 1000 = (t, Resolved user) \<and>
    get_prop user ''name'' = Some userId \<and>
    snd (fetchUserLanguageFromSFSF w userId) = Resolved sLanguage \<longrightarrow>
      main w fw =
        after (t @ SessionSetItem userInfo_key (JSON_stringify w user) #
                 fst (fetchUserLanguageFromSFSF w userId))
          (setLanguage_then fw
             (if truthy sLanguage then Data sLanguage else getBrowserLanguage (nav w))
             (mount fw)))"
proof -
  have found: "directory w userId = Success (Some (first # others)) \<and>
      defaultLocale first = Some sLang \<and> truthy sLang \<longrightarrow>
      fetchUserLanguageFromSFSF w userId = ([ODataRead ''/User'' userId], Resolved sLang)"
    by (simp add: fetchUserLanguageFromSFSF_def)
  have absent: "directory w userId = Success (Some []) \<or> directory w userId = Success None \<or>
      (directory w userId = Success (Some (first # others)) \<and>
       \<not> truthy_opt (defaultLocale first)) \<or>
      directory w userId = Failure \<or> directory w userId = Throws error \<longrightarrow>
      snd (fetchUserLanguageFromSFSF w userId) = Resolved JNull"
    by (auto simp: fetchUserLanguageFromSFSF_def truthy_opt_def split: option.splits)
  have settled: "\<exists>v. snd (fetchUserLanguageFromSFSF w userId) = Resolved v"
    by (rule sfsf_resolves)
  have sequel: "fetchCurrentUser w 1 5 1000 = (t, Resolved user) \<and>
      get_prop user ''name'' = Some userId \<and>
      snd (fetchUserLanguageFromSFSF w userId) = Resolved sLanguage \<longrightarrow>
      main w fw =
        after (t @ SessionSetItem userInfo_key (JSON_stringify w user) #
                 fst (fetchUserLanguageFromSFSF w userId))
          (setLanguage_then fw
             (if truthy sLanguage then Data sLanguage else getBrowserLanguage (nav w))
             (mount fw))"
    by (simp add: main_with_user)
  from found absent settled sequel show ?thesis
    by (intro conjI)
qed

theorem fetchUserLanguageFromSFSF_locale_or_null_witness:
  "fetchUserLanguageFromSFSF (sample_world user_endpoint (directory_row ''ca_ES'')) (JStr ''ana'') =
     ([ODataRead ''/User'' (JStr ''ana'')], Resolved (JStr ''ca_ES'')) \<and>
   main (sample_world user_endpoint (directory_row ''ca_ES'')) good_framework =
     ([FetchCurrentUser, SessionSetItem userInfo_key ana_text,
       ODataRead ''/User'' (JStr ''ana''), SetLanguage (Data (JStr ''ca_ES'')),
       PlaceAt ''com.inetum.missolicitudes'' ''content''],
      Resolved ()) \<and>
   snd (fetchUserLanguageFromSFSF (sample_world user_endpoint (Success (Some []))) (JStr ''ana'')) =
     Resolved JNull \<and>
   main (sample_world user_endpoint (Success (Some []))) good_framework =
     ([FetchCurrentUser, SessionSetItem userInfo_key ana_text,
       ODataRead ''/User'' (JStr ''ana''), SetLanguage (Data (JStr ''en_US'')),
       PlaceAt ''com.inetum.missolicitudes'' ''content''],
      Resolved ())"
proof -
  let ?w = "sample_world user_endpoint (directory_row ''ca_ES'')"
  let ?v = "sample_world user_endpoint (Success (Some []))"
  let ?row = "\<lparr>defaultLocale = Some (JStr ''ca_ES'')\<rparr>"
  have d: "directory ?w (JStr ''ana'') = Success (Some (?row # [])) \<and>
           defaultLocale ?row = Some (JStr ''ca_ES'') \<and> truthy (JStr ''ca_ES'')"
    by (simp add: sample_world_def directory_row_def)
  note found = fetchUserLanguageFromSFSF_locale_or_null
    [where w = ?w and userId = "JStr ''ana''" and first = ?row and others = "[]"
       and sLang = "JStr ''ca_ES''" and t = "[FetchCurrentUser]" and user = ana
       and sLanguage = "JStr ''ca_ES''" and fw = good_framework]
  have 1: "fetchUserLanguageFromSFSF ?w (JStr ''ana'') =
             ([ODataRead ''/User'' (JStr ''ana'')], Resolved (JStr ''ca_ES''))"
    using d found by blast
  have u: "fetchCurrentUser ?w 1 5 1000 = ([FetchCurrentUser], Resolved ana)"
    by code_simp
  have n: "get_prop ana ''name'' = Some (JStr ''ana'')"
    by (simp add: ana_def)
  have "main ?w good_framework =
          after ([FetchCurrentUser] @ SessionSetItem userInfo_key (JSON_stringify ?w ana) #
                   fst (fetchUserLanguageFromSFSF ?w (JStr ''ana'')))
            (setLanguage_then good_framework
               (if truthy (JStr ''ca_ES'') then Data (JStr ''ca_ES'')
                else getBrowserLanguage (nav ?w))
               (mount good_framework))"
    using u n 1 found by simp
  moreover have "JSON_stringify ?w ana = ana_text"
    by (simp add: sample_world_def sample_stringify_def)
  ultimately have 2: "main ?w good_framework =
     ([FetchCurrentUser, SessionSetItem userInfo_key ana_text,
       ODataRead ''/User'' (JStr ''ana''), SetLanguage (Data (JStr ''ca_ES'')),
       PlaceAt ''com.inetum.missolicitudes'' ''content''],
      Resolved ())"
    by (simp add: 1 setLanguage_then_def mount_def after_def good_framework_def)
  have e: "directory ?v (JStr ''ana'') = Success (Some [])"
    by (simp add: sample_world_def)
  note none = fetchUserLanguageFromSFSF_locale_or_null
    [where w = ?v and userId = "JStr ''ana''" and t = "[FetchCurrentUser]" and user = ana
       and sLanguage = JNull and fw = good_framework]
  have 3: "snd (fetchUserLanguageFromSFSF ?v (JStr ''ana'')) = Resolved JNull"
    using e none by blast
  have u': "fetchCurrentUser ?v 1 5 1000 = ([FetchCurrentUser], Resolved ana)"
    by code_simp
  have t: "fst (fetchUserLanguageFromSFSF ?v (JStr ''ana'')) = [ODataRead ''/User'' (JStr ''ana'')]"
    by (simp add: fetchUserLanguageFromSFSF_def e)
  have b: "getBrowserLanguage (nav ?v) = Data (JStr ''en_US'')"
    by code_simp
  have "main ?v good_framework =
          after ([FetchCurrentUser] @ SessionSetItem userInfo_key (JSON_stringify ?v ana) #
                   fst (fetchUserLanguageFromSFSF ?v (JStr ''ana'')))
            (setLanguage_then good_framework
               (if truthy JNull then Data JNull else getBrowserLanguage (nav ?v))
               (mount good_framework))"
    using u' n 3 none by simp
  moreover have "JSON_stringify ?v ana = ana_text"
    by (simp add: sample_world_def sample_stringify_def)
  ultimately have 4: "main ?v good_framework =
     ([FetchCurrentUser, SessionSetItem userInfo_key ana_text,
       ODataRead ''/User'' (JStr ''ana''), SetLanguage (Data (JStr ''en_US'')),
       PlaceAt ''com.inetum.missolicitudes'' ''content''],
      Resolved ())"
    by (simp add: t b setLanguage_then_def mount_def after_def good_framework_def)
  from 1 2 3 4 show ?thesis
    by (intro conjI)
qed

text \<open>
  C8. When \<^verbatim>\<open>fetchCurrentUser(1, 5, 1000)\<close> is fulfilled with a user, \<^verbatim>\<open>main\<close> stores the
  serialization of that very object under \<^verbatim>\<open>com:missolicitudes:userInfo\<close>, right after the
  events of the fetch and before any event of locale resolution or mounting, and this is
  its only write to the session storage. When the fetch is rejected or stays pending,
  \<^verbatim>\<open>main\<close> writes nothing.
\<close>

theorem main_stores_resolved_user:
  assumes "fetchCurrentUser w 1 5 1000 = (t, p)"
  shows "(\<forall>user. p = Resolved user \<longrightarrow>
            (\<exists>rest. fst (main w fw) =
                       t @ SessionSetItem userInfo_key (JSON_stringify w user) # rest \<and>
                     storage_writes rest = []) \<and>
            storage_writes (fst (main w fw)) = [(userInfo_key, JSON_stringify w user)]) \<and>
         storage_writes t = [] \<and>
         \<not> list_ex locale_or_mount t \<and>
         ((\<forall>user. p \<noteq> Resolved user) \<longrightarrow> storage_writes (fst (main w fw)) = []) \<and>
         userInfo_key = ''com:missolicitudes:userInfo''"
proof -
  have "set (fst (fetchCurrentUser w 1 5 1000)) \<subseteq>
          {FetchCurrentUser, SetTimeout 1000, XhrSend ''GET'' ''/logout''}"
    by (rule fetchCurrentUser_events(1))
  then have "set t \<subseteq> {FetchCurrentUser, SetTimeout 1000, XhrSend ''GET'' ''/logout''}"
    using assms by simp
  then have quiet: "storage_writes t = [] \<and> \<not> list_ex locale_or_mount t"
    by (rule retry_events_quiet)
  have stored: "\<forall>user. p = Resolved user \<longrightarrow>
            (\<exists>rest. fst (main w fw) =
                       t @ SessionSetItem userInfo_key (JSON_stringify w user) # rest \<and>
                     storage_writes rest = []) \<and>
            storage_writes (fst (main w fw)) = [(userInfo_key, JSON_stringify w user)]"
  proof (intro allI impI)
    fix user
    assume "p = Resolved user"
    with assms have "fetchCurrentUser w 1 5 1000 = (t, Resolved user)"
      by simp
    then have m: "fst (main w fw) =
        t @ SessionSetItem userInfo_key (JSON_stringify w user) #
          fst (case main_step2 w user of
                 (t2, Resolved sLanguage) \<Rightarrow> after t2 (main_step3 w fw sLanguage)
               | (t2, Rejected error) \<Rightarrow> (t2, Rejected error)
               | (t2, Pending) \<Rightarrow> (t2, Pending))"
      by (simp add: main_resolved fst_after)
    show "(\<exists>rest. fst (main w fw) =
                       t @ SessionSetItem userInfo_key (JSON_stringify w user) # rest \<and>
                     storage_writes rest = []) \<and>
            storage_writes (fst (main w fw)) = [(userInfo_key, JSON_stringify w user)]"
      using m quiet after_steps_store_nothing [where w = w and user = user and fw = fw]
      by (simp add: storage_writes_append)
  qed
  have failed: "(\<forall>user. p \<noteq> Resolved user) \<longrightarrow> storage_writes (fst (main w fw)) = []"
  proof
    assume none: "\<forall>user. p \<noteq> Resolved user"
    show "storage_writes (fst (main w fw)) = []"
    proof (cases p)
      case (Resolved user)
      with none show ?thesis by simp
    next
      case (Rejected error)
      with assms have "main w fw =
          after t (setLanguage_then fw (getBrowserLanguage (nav w)) (mount fw))"
        by (simp add: main_rejected)
      then show ?thesis
        using quiet
        by (simp add: fst_after storage_writes_append setLanguage_then_def mount_def after_def
              split: option.splits)
    next
      case Pending
      with assms have "main w fw = (t, Pending)"
        by (simp add: main_pending)
      then show ?thesis
        using quiet by simp
    qed
  qed
  from stored quiet failed show ?thesis
    by (simp add: userInfo_key_def)
qed

theorem main_stores_resolved_user_witness:
  "fetchCurrentUser (sample_world recovering_endpoint Failure) 1 5 1000 =
     (five_attempts, Resolved ana) \<and>
   storage_writes (fst (main (sample_world recovering_endpoint Failure) good_framework)) =
     [(''com:missolicitudes:userInfo'', ana_text)] \<and>
   fetchCurrentUser (sample_world unauthorized_endpoint Failure) 1 5 1000 =
     ([FetchCurrentUser, XhrSend ''GET'' ''/logout''], Pending) \<and>
   storage_writes (fst (main (sample_world unauthorized_endpoint Failure) good_framework)) = []"
proof -
  let ?w = "sample_world recovering_endpoint Failure"
  let ?v = "sample_world unauthorized_endpoint Failure"
  have u: "fetchCurrentUser ?w 1 5 1000 = (five_attempts, Resolved ana)"
    by code_simp
  have s: "JSON_stringify ?w ana = ana_text"
    by (simp add: sample_world_def sample_stringify_def)
  have 1: "storage_writes (fst (main ?w good_framework)) =
             [(''com:missolicitudes:userInfo'', ana_text)]"
    using main_stores_resolved_user [OF u, of good_framework] s by simp
  have p: "fetchCurrentUser ?v 1 5 1000 = ([FetchCurrentUser, XhrSend ''GET'' ''/logout''], Pending)"
    by code_simp
  have 2: "storage_writes (fst (main ?v good_framework)) = []"
    using main_stores_resolved_user [OF p, of good_framework] by simp
  from u 1 p 2 show ?thesis
    by (intro conjI)
qed

end
